theory Spec2Isabelle
  imports Complex_Main
begin

section \<open>Errors\<close>

text \<open>
  The exceptions the two notebooks can raise, as values. Python raises
  \<^verbatim>\<open>ZeroDivisionError\<close> on a float or int division by zero, numpy raises
  \<^verbatim>\<open>ValueError\<close> when two arrays of different shapes are added, and an
  out-of-range index raises \<^verbatim>\<open>IndexError\<close>. A numpy division by zero raises
  nothing and yields \<^verbatim>\<open>inf\<close> or \<^verbatim>\<open>nan\<close>, which is no real number:
  \<open>NonFinite\<close> stands for it.
\<close>

datatype error = DivisionByZero | InvalidDimension | IndexError | NonFinite

section \<open>The vectors of vpython\<close>

text \<open>
  \<^verbatim>\<open>vec(x, y, z)\<close> with the operations the notebook uses: scalar multiple
  (\<^verbatim>\<open>s*v\<close> and \<^verbatim>\<open>v*s\<close>), difference, \<^verbatim>\<open>dot\<close>, \<^verbatim>\<open>mag\<close> and
  \<^verbatim>\<open>hat\<close>. The unit vector of the zero vector is the zero vector.
\<close>

datatype vec = vec (vx: real) (vy: real) (vz: real)

fun smult :: "real \<Rightarrow> vec \<Rightarrow> vec" where
  "smult s (vec x y z) = vec (s * x) (s * y) (s * z)"

fun vminus :: "vec \<Rightarrow> vec \<Rightarrow> vec" where
  "vminus (vec x y z) (vec x' y' z') = vec (x - x') (y - y') (z - z')"

fun dot :: "vec \<Rightarrow> vec \<Rightarrow> real" where
  "dot (vec x y z) (vec x' y' z') = x * x' + y * y' + z * z'"

definition mag :: "vec \<Rightarrow> real" where
  "mag v = sqrt (dot v v)"

definition hat :: "vec \<Rightarrow> vec" where
  "hat v = (if mag v > 0 then smult (1 / mag v) v else vec 0 0 0)"

section \<open>Erad: the constants\<close>

text \<open>
  The local variables of \<^verbatim>\<open>Erad(numTheta, numPhi)\<close>, lines 116 to 153 of
  Electric\_Rad\_Project.ipynb, over the reals: a float literal is the decimal it
  denotes.
\<close>

definition Erad_q :: real where "Erad_q = 16 / 10 ^ 20"
definition Erad_alpha :: real where "Erad_alpha = 74 / 10 ^ 42"
definition Erad_e_0 :: real where "Erad_e_0 = 885 / 10 ^ 14"
definition Erad_c :: real where "Erad_c = 3 * 10 ^ 8"
definition Erad_a :: real where "Erad_a = 529 / 10 ^ 13"
definition Erad_k :: real where "Erad_k = Erad_q ^ 2 / Erad_alpha"
definition Erad_m :: real where "Erad_m = 911 / 10 ^ 33"
definition Erad_A :: real where "Erad_A = 4 * Erad_a"
definition Erad_oofpez :: real where "Erad_oofpez = 9 * 10 ^ 9"
definition Erad_omega :: real where "Erad_omega = sqrt (Erad_k / Erad_m)"
definition Erad_h :: real where "Erad_h = 1 / 10 ^ 18"

text \<open>\<^verbatim>\<open>t = np.arange(0, Nsteps*h, h)\<close>: \<open>Nsteps\<close> entries, entry \<open>i\<close> is \<open>0 + i*h\<close>.\<close>

definition Erad_t :: "nat \<Rightarrow> real" where
  "Erad_t i = 0 + real i * Erad_h"

definition Erad_Ay :: real where "Erad_Ay = - Erad_A * Erad_omega ^ 2"
definition Erad_Avec :: vec where "Erad_Avec = smult Erad_Ay (vec 0 1 0)"

definition Erad_N :: nat where "Erad_N = 30"
definition Erad_x :: real where "Erad_x = Erad_A * 5 * 10 ^ 11"
definition Erad_L :: real where "Erad_L = 2 * Erad_x"
definition Erad_dx :: real where "Erad_dx = Erad_L / real Erad_N"

section \<open>Erad: the observation locations\<close>

text \<open>The direction of line 167 for the angles \<open>theta\<close> and \<open>phi\<close>.\<close>

definition direction :: "real \<Rightarrow> real \<Rightarrow> vec" where
  "direction theta phi = vec (cos phi * cos theta) (sin theta) (sin phi * cos theta)"

text \<open>
  Lines 166 to 168, \<^verbatim>\<open>for n in range(0,N)\<close>: append \<open>x * direction\<close>, then
  \<open>x = x + dx\<close>. The argument \<open>n\<close> counts the iterations left.
\<close>

fun radial_loop :: "real \<Rightarrow> real \<Rightarrow> real \<Rightarrow> real \<Rightarrow> nat \<Rightarrow> vec list \<Rightarrow> vec list" where
  "radial_loop theta phi x dx 0 robs = robs"
| "radial_loop theta phi x dx (Suc n) robs =
     radial_loop theta phi (x + dx) dx n (robs @ [smult x (direction theta phi)])"

text \<open>
  Lines 164 to 169, \<^verbatim>\<open>while phi < 2*np.pi\<close>. The loop runs forever when
  \<open>dphi\<close> is not positive, so its result is an option: \<open>None\<close> is no return.
\<close>

partial_function (option) phi_loop ::
  "real \<Rightarrow> real \<Rightarrow> real \<Rightarrow> real \<Rightarrow> real \<Rightarrow> nat \<Rightarrow> vec list \<Rightarrow> vec list option" where
  "phi_loop theta phi dphi x0 dx N robs =
     (if phi < 2 * pi
      then phi_loop theta (phi + dphi) dphi x0 dx N (radial_loop theta phi x0 dx N robs)
      else Some robs)"

text \<open>Lines 162 to 170, \<^verbatim>\<open>while theta < np.pi/2\<close>, with \<open>phi = 0\<close> at each turn.\<close>

partial_function (option) theta_loop ::
  "real \<Rightarrow> real \<Rightarrow> real \<Rightarrow> real \<Rightarrow> real \<Rightarrow> nat \<Rightarrow> vec list \<Rightarrow> vec list option" where
  "theta_loop theta dtheta dphi x0 dx N robs =
     (if theta < pi / 2
      then Option.bind (phi_loop theta 0 dphi x0 dx N robs)
             (\<lambda>robs'. theta_loop (theta + dtheta) dtheta dphi x0 dx N robs')
      else Some robs)"

text \<open>
  Lines 155 to 170 as a whole. \<^verbatim>\<open>dtheta = pi/numTheta\<close> and
  \<^verbatim>\<open>dphi = 2*pi/numPhi\<close> raise ZeroDivisionError for a zero count; nothing else
  in the generation raises. The radial start \<open>x0\<close>, the increment \<open>dx\<close> and the
  count \<open>N\<close> are the variables \<^verbatim>\<open>A*5*10**11\<close>, \<^verbatim>\<open>dx\<close> and \<^verbatim>\<open>N\<close> of the code.
\<close>

definition observation_grid ::
  "int \<Rightarrow> int \<Rightarrow> real \<Rightarrow> real \<Rightarrow> nat \<Rightarrow> (error + vec list) option" where
  "observation_grid numTheta numPhi x0 dx N =
     (if numTheta = 0 \<or> numPhi = 0 then Some (Inl DivisionByZero)
      else map_option Inr
             (theta_loop (- pi / 2) (pi / real_of_int numTheta) (2 * pi / real_of_int numPhi)
                x0 dx N []))"

definition Erad_robs :: "int \<Rightarrow> int \<Rightarrow> (error + vec list) option" where
  "Erad_robs numTheta numPhi = observation_grid numTheta numPhi Erad_x Erad_dx Erad_N"

section \<open>Erad: the field\<close>

text \<open>
  Line 184, as a function of the variables it reads:
  \<^verbatim>\<open>oofpez * q /(c**2 * mag(r)) * (dot(Avec,hat(r)) * hat(r) - Avec)
      * np.cos(omega*(t[i] + (mag(r)/c))) *13**6\<close>.
  The divisions are float divisions of Python: a zero divisor raises.
\<close>

definition Efield :: "real \<Rightarrow> real \<Rightarrow> real \<Rightarrow> vec \<Rightarrow> real \<Rightarrow> real \<Rightarrow> vec \<Rightarrow> error + vec" where
  "Efield oofpez q c Avec omega ti r =
     (if c ^ 2 * mag r = 0 then Inl DivisionByZero
      else Inr (smult (13 ^ 6)
                 (smult (cos (omega * (ti + mag r / c)))
                   (smult (oofpez * q / (c ^ 2 * mag r))
                     (vminus (smult (dot Avec (hat r)) (hat r)) Avec)))))"

text \<open>Line 184 with the constants of \<^verbatim>\<open>Erad\<close>, at step \<open>i\<close>.\<close>

definition Erad_Efield :: "vec \<Rightarrow> nat \<Rightarrow> error + vec" where
  "Erad_Efield r i =
     Efield Erad_oofpez Erad_q Erad_c Erad_Avec Erad_omega (Erad_t i) r"



section \<open>The double pendulum: state vectors and the integrator\<close>

text \<open>
  A state is a numpy array of reals, here a list. \<^verbatim>\<open>a + b\<close> adds entry by entry and
  \<^verbatim>\<open>s * a\<close> scales every entry.
\<close>

type_synonym state = "real list"

type_synonym derivative = "state \<Rightarrow> real \<Rightarrow> error + state"

definition vadd :: "state \<Rightarrow> state \<Rightarrow> state" where
  "vadd a b = map2 (+) a b"

definition vscale :: "real \<Rightarrow> state \<Rightarrow> state" where
  "vscale s a = map ((*) s) a"

text \<open>
  Modelled from the spec: the module \<^verbatim>\<open>ode\<close>, whose function \<^verbatim>\<open>ode.RK4\<close> the
  notebook calls at line 143, is not among the sources. The specification gives the step
  as \<^verbatim>\<open>k1 = derivFn(state, t)\<close>, \<^verbatim>\<open>k2 = derivFn(state + (h/2)*k1, t + h/2)\<close>,
  \<^verbatim>\<open>k3 = derivFn(state + (h/2)*k2, t + h/2)\<close>, \<^verbatim>\<open>k4 = derivFn(state + h*k3, t + h)\<close>,
  \<^verbatim>\<open>nextState = state + (h/6)*(k1 + 2*k2 + 2*k3 + k4)\<close>, failing with InvalidDimension
  when \<^verbatim>\<open>derivFn\<close> returns a vector whose length is not that of \<^verbatim>\<open>state\<close>. An
  exception of \<^verbatim>\<open>derivFn\<close> ends the step.
\<close>

definition eval_deriv :: "derivative \<Rightarrow> nat \<Rightarrow> state \<Rightarrow> real \<Rightarrow> error + state" where
  "eval_deriv derivFn n s t =
     (case derivFn s t of
        Inl e \<Rightarrow> Inl e
      | Inr k \<Rightarrow> if length k = n then Inr k else Inl InvalidDimension)"

text \<open>Modelled from the spec: the step \<^verbatim>\<open>ode.RK4(derivFn, state, t, h)\<close>, as above.\<close>

definition RK4 :: "derivative \<Rightarrow> state \<Rightarrow> real \<Rightarrow> real \<Rightarrow> error + state" where
  "RK4 derivFn state t h =
     (case eval_deriv derivFn (length state) state t of
        Inl e \<Rightarrow> Inl e
      | Inr k1 \<Rightarrow>
     (case eval_deriv derivFn (length state) (vadd state (vscale (h / 2) k1)) (t + h / 2) of
        Inl e \<Rightarrow> Inl e
      | Inr k2 \<Rightarrow>
     (case eval_deriv derivFn (length state) (vadd state (vscale (h / 2) k2)) (t + h / 2) of
        Inl e \<Rightarrow> Inl e
      | Inr k3 \<Rightarrow>
     (case eval_deriv derivFn (length state) (vadd state (vscale h k3)) (t + h) of
        Inl e \<Rightarrow> Inl e
      | Inr k4 \<Rightarrow>
          Inr (vadd state
                (vscale (h / 6) (vadd (vadd (vadd k1 (vscale 2 k2)) (vscale 2 k3)) k4)))))))"

section \<open>The double pendulum: the derivative\<close>

text \<open>
  \<^verbatim>\<open>dpendulum(dep, t)\<close>, lines 62 to 93 of Double\_Pendulum\_Project.ipynb. The
  function reads \<^verbatim>\<open>m1\<close>, \<^verbatim>\<open>m2\<close>, \<^verbatim>\<open>L1\<close> and \<^verbatim>\<open>L2\<close>, which are neither
  parameters nor locals: they are variables of the module, set by the cells that call
  \<^verbatim>\<open>pcalc\<close>. The module's variables are a record, open for whatever else the module
  holds, and the function takes it as its first argument.
\<close>

record module_vars =
  L1 :: real
  L2 :: real
  m1 :: real
  m2 :: real

text \<open>
  \<^verbatim>\<open>dep[3]\<close> raises IndexError on a shorter array. The two quotients are numpy
  divisions: a zero divisor gives \<^verbatim>\<open>inf\<close> or \<^verbatim>\<open>nan\<close>, no real number.
\<close>

definition dpendulum :: "'a module_vars_scheme \<Rightarrow> state \<Rightarrow> real \<Rightarrow> error + state" where
  "dpendulum M dep t =
     (if length dep < 4 then Inl IndexError
      else
        let g = 98 / 10;
            theta1 = dep ! 0;
            omega1 = dep ! 1;
            theta2 = dep ! 2;
            omega2 = dep ! 3;
            A1 = - g * (2 * m1 M + m2 M) * sin theta1 - m2 M * g * sin (theta1 - 2 * theta2);
            A2 = - 2 * sin (theta1 - theta2) * m2 M *
                   (omega2 ^ 2 * L2 M + omega1 ^ 2 * L1 M * cos (theta1 - theta2));
            A3 = L1 M * (2 * m1 M + m2 M - m2 M * cos (2 * theta1 - 2 * theta2));
            B1 = 2 * sin (theta1 - theta2) *
                   (omega1 ^ 2 * L1 M * (m1 M + m2 M) + g * (m1 M + m2 M) * cos theta1 +
                    omega2 ^ 2 * L2 M * m2 M * cos (theta1 - theta2));
            B2 = L2 M * (2 * m1 M + m2 M - m2 M * cos (2 * theta1 - 2 * theta2))
        in if A3 = 0 \<or> B2 = 0 then Inl NonFinite
           else Inr [omega1, (A1 + A2) / A3, omega2, B1 / B2])"

section \<open>The double pendulum: the time loop\<close>

text \<open>The five arrays \<^verbatim>\<open>pcalc\<close> fills and returns.\<close>

record arrays =
  tarr :: "real list"
  theta1arr :: "real list"
  omega1arr :: "real list"
  theta2arr :: "real list"
  omega2arr :: "real list"

text \<open>
  Lines 141 to 151, \<^verbatim>\<open>for n in range(1,Nsteps)\<close>, over the variables \<^verbatim>\<open>data\<close>,
  \<^verbatim>\<open>t\<close> and the arrays. The integrator is the parameter \<open>step\<close>. Every \<open>n\<close> of the
  range is below \<open>Nsteps\<close>, the length of the arrays, so the stores are in range;
  \<^verbatim>\<open>data[3]\<close> raises IndexError when the step returned fewer than four entries.
\<close>

fun time_loop ::
  "(derivative \<Rightarrow> state \<Rightarrow> real \<Rightarrow> real \<Rightarrow> error + state) \<Rightarrow> derivative \<Rightarrow> real \<Rightarrow>
     nat list \<Rightarrow> state \<Rightarrow> real \<Rightarrow> arrays \<Rightarrow> error + arrays" where
  "time_loop step derivFn h [] data t A = Inr A"
| "time_loop step derivFn h (n # ns) data t A =
     (case step derivFn data t h of
        Inl e \<Rightarrow> Inl e
      | Inr data' \<Rightarrow>
          if length data' < 4 then Inl IndexError
          else time_loop step derivFn h ns data' (t + h)
                 (A\<lparr>tarr := (tarr A)[n := t + h],
                    theta1arr := (theta1arr A)[n := data' ! 0],
                    omega1arr := (omega1arr A)[n := data' ! 1],
                    theta2arr := (theta2arr A)[n := data' ! 2],
                    omega2arr := (omega2arr A)[n := data' ! 3]\<rparr>))"

text \<open>
  Lines 117 to 153 for any initial values, start time, step size and step count:
  \<^verbatim>\<open>np.zeros(Nsteps)\<close> five times, the stores at index 0 (IndexError on an array of
  length 0), then the loop.
\<close>

definition run ::
  "(derivative \<Rightarrow> state \<Rightarrow> real \<Rightarrow> real \<Rightarrow> error + state) \<Rightarrow> derivative \<Rightarrow>
     real \<Rightarrow> real \<Rightarrow> real \<Rightarrow> real \<Rightarrow> real \<Rightarrow> real \<Rightarrow> nat \<Rightarrow> error + arrays" where
  "run step derivFn theta1_0 omega1_0 theta2_0 omega2_0 t0 h Nsteps =
     (if Nsteps = 0 then Inl IndexError
      else time_loop step derivFn h [1..<Nsteps] [theta1_0, omega1_0, theta2_0, omega2_0] t0
             \<lparr>tarr = (replicate Nsteps 0)[0 := t0],
              theta1arr = (replicate Nsteps 0)[0 := theta1_0],
              omega1arr = (replicate Nsteps 0)[0 := omega1_0],
              theta2arr = (replicate Nsteps 0)[0 := theta2_0],
              omega2arr = (replicate Nsteps 0)[0 := omega2_0]\<rparr>)"

text \<open>
  \<^verbatim>\<open>pcalc(L1,m1,L2,m2)\<close> itself: its four parameters are not read by its body (the
  derivative reads the module's variables), the initial angles are \<open>\<pi>/2\<close> and 0, the
  initial speeds 0, \<open>t = 0\<close>, \<open>h = 10\<^sup>-\<^sup>4\<close> and \<open>Nsteps = int(10/h)\<close>.
\<close>

definition pcalc :: "'a module_vars_scheme \<Rightarrow> real \<Rightarrow> real \<Rightarrow> real \<Rightarrow> real \<Rightarrow> error + arrays" where
  "pcalc M L1_arg m1_arg L2_arg m2_arg =
     run RK4 (dpendulum M) (pi / 2) 0 0 0 0 (1 / 10 ^ 4) 100000"

section \<open>What the specification expects\<close>

text \<open>
  The formula of the specification for the field, in its own words:
  \<^verbatim>\<open>(q / (4 pi e0 c^2 |r|)) * ((A_max . r_hat) r_hat - A_max) * cos(omega (t_i - |r|/c))\<close>.
  It is compared with \<open>Efield\<close>, never used in its place.
\<close>

definition spec_field :: "real \<Rightarrow> real \<Rightarrow> real \<Rightarrow> vec \<Rightarrow> real \<Rightarrow> real \<Rightarrow> vec \<Rightarrow> vec" where
  "spec_field q e_0 c Avec omega ti r =
     smult (cos (omega * (ti - mag r / c)))
       (smult (q / (4 * pi * e_0 * c ^ 2 * mag r))
         (vminus (smult (dot Avec (hat r)) (hat r)) Avec))"

text \<open>
  The points the specification expects of the generation: for each pair of angles, \<open>N\<close>
  points at the radii \<open>x0 + j * dx\<close>; the azimuths \<open>j * dphi\<close> for \<open>j < n\<close>; the polar
  angles \<open>-\<pi>/2 + j * (\<pi>/m)\<close> for \<open>j < m\<close>.
\<close>

definition radial_run :: "real \<Rightarrow> real \<Rightarrow> real \<Rightarrow> real \<Rightarrow> nat \<Rightarrow> vec list" where
  "radial_run theta phi x0 dx N =
     map (\<lambda>j. smult (x0 + real j * dx) (direction theta phi)) [0..<N]"

definition phi_sweep :: "real \<Rightarrow> real \<Rightarrow> nat \<Rightarrow> real \<Rightarrow> real \<Rightarrow> nat \<Rightarrow> vec list" where
  "phi_sweep theta dphi n x0 dx N =
     concat (map (\<lambda>j. radial_run theta (real j * dphi) x0 dx N) [0..<n])"

definition grid_points :: "nat \<Rightarrow> nat \<Rightarrow> real \<Rightarrow> real \<Rightarrow> nat \<Rightarrow> vec list" where
  "grid_points m n x0 dx N =
     concat (map (\<lambda>j. phi_sweep (- pi / 2 + real j * (pi / real m)) (2 * pi / real n) n x0 dx N)
               [0..<m])"

section \<open>The radial loop, and the algebra of vectors\<close>

lemma radial_loop_eq:
  "radial_loop theta phi x dx n robs =
     robs @ map (\<lambda>j. smult (x + real j * dx) (direction theta phi)) [0..<n]"
proof (induction n arbitrary: x robs)
  case 0
  then show ?case by simp
next
  case (Suc n)
  have "map (\<lambda>j. smult (x + real j * dx) (direction theta phi)) [0..<Suc n] =
        smult x (direction theta phi) #
        map (\<lambda>j. smult (x + dx + real j * dx) (direction theta phi)) [0..<n]"
    by (simp add: upt_conv_Cons map_Suc_upt[symmetric] algebra_simps del: upt_Suc)
  then show ?case using Suc.IH by simp
qed

lemma dot_smult_left: "dot (smult s v) w = s * dot v w"
  by (cases v; cases w) (simp add: algebra_simps)

lemma dot_smult_right: "dot v (smult s w) = s * dot v w"
  by (cases v; cases w) (simp add: algebra_simps)

lemma dot_vminus_left: "dot (vminus u v) w = dot u w - dot v w"
  by (cases u; cases v; cases w) (simp add: algebra_simps)

lemma dot_self_nonneg: "0 \<le> dot v v"
  by (cases v) simp

lemma mag_nonneg: "0 \<le> mag v"
  by (simp add: mag_def dot_self_nonneg)

lemma mag_sq: "mag v * mag v = dot v v"
  by (simp add: mag_def dot_self_nonneg)

lemma mag_smult: "mag (smult s v) = \<bar>s\<bar> * mag v"
  by (simp add: mag_def dot_smult_left dot_smult_right real_sqrt_mult flip: mult.assoc)

lemma dot_direction: "dot (direction theta phi) (direction theta phi) = 1"
proof -
  have p: "(cos phi)\<^sup>2 + (sin phi)\<^sup>2 = 1" and t: "(cos theta)\<^sup>2 + (sin theta)\<^sup>2 = 1"
    by simp_all
  have "(cos phi * cos theta)\<^sup>2 + (sin theta)\<^sup>2 + (sin phi * cos theta)\<^sup>2 =
        (cos theta)\<^sup>2 * ((cos phi)\<^sup>2 + (sin phi)\<^sup>2) + (sin theta)\<^sup>2"
    by (simp only: power_mult_distrib distrib_left mult.commute add.commute add.left_commute)
  also have "\<dots> = 1"
    by (simp only: p t mult_1_right)
  finally show ?thesis
    by (simp add: direction_def power2_eq_square)
qed

lemma mag_direction: "mag (direction theta phi) = 1"
  by (simp add: mag_def dot_direction)

section \<open>The generation loops return the expected points\<close>

lemma radial_loop_run: "radial_loop theta phi x0 dx N robs = robs @ radial_run theta phi x0 dx N"
  by (simp add: radial_loop_eq radial_run_def)

lemma length_radial_run: "length (radial_run theta phi x0 dx N) = N"
  by (simp add: radial_run_def)

lemma phi_loop_run:
  assumes below: "\<And>j. j < n \<Longrightarrow> real j * dphi < 2 * pi"
    and top: "\<not> real n * dphi < 2 * pi"
  shows "k \<le> n \<Longrightarrow>
    phi_loop theta (real k * dphi) dphi x0 dx N robs =
      Some (robs @ concat (map (\<lambda>j. radial_run theta (real j * dphi) x0 dx N) [k..<n]))"
proof (induction "n - k" arbitrary: k robs)
  case 0
  then have "k = n" by simp
  then show ?case using top by (subst phi_loop.simps) simp
next
  case (Suc d)
  then have lt: "k < n" and d: "d = n - Suc k" and le: "Suc k \<le> n" by simp_all
  have step: "real k * dphi + dphi = real (Suc k) * dphi"
    by (simp add: algebra_simps)
  have "phi_loop theta (real k * dphi) dphi x0 dx N robs =
        phi_loop theta (real (Suc k) * dphi) dphi x0 dx N
          (robs @ radial_run theta (real k * dphi) x0 dx N)"
    using below[OF lt] by (subst phi_loop.simps) (simp only: if_True step radial_loop_run)
  also have "\<dots> = Some ((robs @ radial_run theta (real k * dphi) x0 dx N) @
        concat (map (\<lambda>j. radial_run theta (real j * dphi) x0 dx N) [Suc k..<n]))"
    by (rule Suc.hyps(1)[OF d le])
  finally show ?case using lt by (simp add: upt_conv_Cons)
qed

lemma phi_loop_sweep:
  assumes "0 < n"
  shows "phi_loop theta 0 (2 * pi / real n) x0 dx N robs =
           Some (robs @ phi_sweep theta (2 * pi / real n) n x0 dx N)"
proof -
  have below: "real j * (2 * pi / real n) < 2 * pi" if "j < n" for j
  proof -
    have "real j / real n < 1" using that assms by simp
    then have "(real j / real n) * (2 * pi) < 1 * (2 * pi)"
      by (intro mult_strict_right_mono) simp_all
    then show ?thesis by (simp add: field_simps)
  qed
  have top: "\<not> real n * (2 * pi / real n) < 2 * pi"
    using assms by simp
  from phi_loop_run[of n "2 * pi / real n" 0 theta x0 dx N robs, OF below top]
  show ?thesis by (simp add: phi_sweep_def)
qed

lemma theta_loop_run:
  assumes below: "\<And>j. j < m \<Longrightarrow> - pi / 2 + real j * dtheta < pi / 2"
    and top: "\<not> - pi / 2 + real m * dtheta < pi / 2"
    and n: "0 < n"
  shows "k \<le> m \<Longrightarrow>
    theta_loop (- pi / 2 + real k * dtheta) dtheta (2 * pi / real n) x0 dx N robs =
      Some (robs @ concat (map (\<lambda>j. phi_sweep (- pi / 2 + real j * dtheta) (2 * pi / real n) n x0 dx N) [k..<m]))"
proof (induction "m - k" arbitrary: k robs)
  case 0
  then have "k = m" by simp
  then show ?case using top by (subst theta_loop.simps) simp
next
  case (Suc d)
  then have lt: "k < m" and d: "d = m - Suc k" and le: "Suc k \<le> m" by simp_all
  have step: "- pi / 2 + real k * dtheta + dtheta = - pi / 2 + real (Suc k) * dtheta"
    by (simp add: algebra_simps)
  have "theta_loop (- pi / 2 + real k * dtheta) dtheta (2 * pi / real n) x0 dx N robs =
        theta_loop (- pi / 2 + real (Suc k) * dtheta) dtheta (2 * pi / real n) x0 dx N
          (robs @ phi_sweep (- pi / 2 + real k * dtheta) (2 * pi / real n) n x0 dx N)"
    using below[OF lt]
    by (subst theta_loop.simps) (simp only: if_True step phi_loop_sweep[OF n] bind.bind_lunit)
  also have "\<dots> = Some ((robs @ phi_sweep (- pi / 2 + real k * dtheta) (2 * pi / real n) n x0 dx N) @
        concat (map (\<lambda>j. phi_sweep (- pi / 2 + real j * dtheta) (2 * pi / real n) n x0 dx N) [Suc k..<m]))"
    by (rule Suc.hyps(1)[OF d le])
  finally show ?case using lt by (simp add: upt_conv_Cons)
qed

lemma observation_grid_points:
  assumes m: "0 < m" and n: "0 < n"
  shows "observation_grid (int m) (int n) x0 dx N = Some (Inr (grid_points m n x0 dx N))"
proof -
  have below: "- pi / 2 + real j * (pi / real m) < pi / 2" if "j < m" for j
  proof -
    have "real j / real m < 1" using that m by simp
    then have "(real j / real m) * pi < 1 * pi"
      by (intro mult_strict_right_mono) simp_all
    then have "real j * (pi / real m) < pi" by simp
    then show ?thesis by linarith
  qed
  have top: "\<not> - pi / 2 + real m * (pi / real m) < pi / 2"
    using m by simp
  from theta_loop_run[of m "pi / real m" n 0 x0 dx N "[]", OF below top n]
  show ?thesis using m n by (simp add: observation_grid_def grid_points_def)
qed


lemma nth_radial_run:
  "n < N \<Longrightarrow> radial_run theta phi x0 dx N ! n = smult (x0 + real n * dx) (direction theta phi)"
  by (simp add: radial_run_def)

lemma grid_points_2_2:
  "grid_points 2 2 x0 dx N =
     radial_run (- pi / 2) 0 x0 dx N @ radial_run (- pi / 2) pi x0 dx N @
     radial_run 0 0 x0 dx N @ radial_run 0 pi x0 dx N"
proof -
  have u: "[0..<2] = [0, Suc 0]" by (simp add: upt_conv_Cons)
  show ?thesis by (simp add: grid_points_def phi_sweep_def u)
qed

lemma observation_grid_2_2:
  "observation_grid 2 2 x0 dx N = Some (Inr (grid_points 2 2 x0 dx N))"
  using observation_grid_points[of 2 2 x0 dx N] by simp

section \<open>The observation grid: count, order and radii\<close>

lemma Erad_x_pos: "0 < Erad_x"
  by (simp add: Erad_x_def Erad_A_def Erad_a_def)

lemma Erad_dx_pos: "0 < Erad_dx"
  using Erad_x_pos by (simp add: Erad_dx_def Erad_L_def Erad_N_def)

lemma Erad_c_pos: "0 < Erad_c"
  by (simp add: Erad_c_def)

lemma grid_points_2_2_nth:
  assumes j: "j < 2" and k: "k < 2" and n: "n < 30"
  shows "grid_points 2 2 x0 dx 30 ! (60 * j + 30 * k + n) =
      smult (x0 + real n * dx) (direction (- pi / 2 + real j * (pi / 2)) (real k * pi))"
proof -
  from j k consider "j = 0" "k = 0" | "j = 0" "k = 1" | "j = 1" "k = 0" | "j = 1" "k = 1"
    by linarith
  then show ?thesis
  proof cases
    case 1
    then show ?thesis using n
      by (simp add: grid_points_2_2 nth_append length_radial_run nth_radial_run)
  next
    case 2
    then show ?thesis using n
      by (simp add: grid_points_2_2 nth_append length_radial_run nth_radial_run)
  next
    case 3
    then show ?thesis using n
      by (simp add: grid_points_2_2 nth_append length_radial_run nth_radial_run)
  next
    case 4
    then show ?thesis using n
      by (simp add: grid_points_2_2 nth_append length_radial_run nth_radial_run)
  qed
qed

lemma smult_direction:
  "smult s (direction theta phi) =
     vec (s * (cos phi * cos theta)) (s * sin theta) (s * (sin phi * cos theta))"
  by (simp add: direction_def)

text \<open>
  C3. With \<open>numTheta = 2\<close>, \<open>numPhi = 2\<close> and 30 radial points the generation returns,
  and returns exactly \<open>2 * 2 * 30 = 120\<close> points. With \<open>theta = -\<pi>/2 + j * (\<pi>/2)\<close>,
  \<open>phi = k * \<pi>\<close> and \<open>x = x0 + n * dx\<close>, the point at index \<open>60 j + 30 k + n\<close> has the
  coordinates \<open>(x cos phi cos theta, x sin theta, x sin phi cos theta)\<close>, and its distance
  from the origin is \<open>|x|\<close>. The result is a function of the parameters, so two calls with
  the same parameters give the same list in the same order. (Over the reals: the loop
  counters are exact sums.)
\<close>

theorem grid_2_2_30:
  "\<exists>robs. observation_grid 2 2 x0 dx 30 = Some (Inr robs) \<and> length robs = 120 \<and>
     (\<forall>j<2. \<forall>k<2. \<forall>n<30.
        robs ! (60 * j + 30 * k + n) =
          vec ((x0 + real n * dx) *
                 (cos (real k * pi) * cos (- pi / 2 + real j * (pi / 2))))
              ((x0 + real n * dx) * sin (- pi / 2 + real j * (pi / 2)))
              ((x0 + real n * dx) *
                 (sin (real k * pi) * cos (- pi / 2 + real j * (pi / 2)))) \<and>
        mag (robs ! (60 * j + 30 * k + n)) = \<bar>x0 + real n * dx\<bar>)"
proof (intro exI conjI allI impI)
  show "observation_grid 2 2 x0 dx 30 = Some (Inr (grid_points 2 2 x0 dx 30))"
    by (rule observation_grid_2_2)
  show "length (grid_points 2 2 x0 dx 30) = 120"
    by (simp add: grid_points_2_2 length_radial_run)
next
  fix j k n :: nat
  assume j: "j < 2" and k: "k < 2" and n: "n < 30"
  show "grid_points 2 2 x0 dx 30 ! (60 * j + 30 * k + n) =
          vec ((x0 + real n * dx) *
                 (cos (real k * pi) * cos (- pi / 2 + real j * (pi / 2))))
              ((x0 + real n * dx) * sin (- pi / 2 + real j * (pi / 2)))
              ((x0 + real n * dx) *
                 (sin (real k * pi) * cos (- pi / 2 + real j * (pi / 2))))"
    by (simp only: grid_points_2_2_nth[OF j k n] smult_direction)
next
  fix j k n :: nat
  assume j: "j < 2" and k: "k < 2" and n: "n < 30"
  show "mag (grid_points 2 2 x0 dx 30 ! (60 * j + 30 * k + n)) = \<bar>x0 + real n * dx\<bar>"
    by (simp only: grid_points_2_2_nth[OF j k n] mag_smult mag_direction mult_1_right)
qed

text \<open>
  The notebook's own radii at \<open>j = 1\<close>, \<open>k = 1\<close>, \<open>n = 1\<close>: \<open>theta = 0\<close>, \<open>phi = \<pi>\<close>, the
  point at radius \<open>Erad_x + Erad_dx\<close> on the negative x axis.
\<close>

theorem grid_2_2_30_witness:
  "\<exists>robs. Erad_robs 2 2 = Some (Inr robs) \<and> length robs = 120 \<and>
     robs ! 91 = vec (- (Erad_x + Erad_dx)) 0 0 \<and> mag (robs ! 91) = Erad_x + Erad_dx"
proof -
  from grid_2_2_30[of Erad_x Erad_dx] obtain robs where
    g: "observation_grid 2 2 Erad_x Erad_dx 30 = Some (Inr robs)" and l: "length robs = 120"
    and a: "\<forall>j<2. \<forall>k<2. \<forall>n<30.
        robs ! (60 * j + 30 * k + n) =
          vec ((Erad_x + real n * Erad_dx) *
                 (cos (real k * pi) * cos (- pi / 2 + real j * (pi / 2))))
              ((Erad_x + real n * Erad_dx) * sin (- pi / 2 + real j * (pi / 2)))
              ((Erad_x + real n * Erad_dx) *
                 (sin (real k * pi) * cos (- pi / 2 + real j * (pi / 2)))) \<and>
        mag (robs ! (60 * j + 30 * k + n)) = \<bar>Erad_x + real n * Erad_dx\<bar>"
    by blast
  have p: "0 < Erad_x + Erad_dx" using Erad_x_pos Erad_dx_pos by simp
  note x = a[rule_format, of 1 1 1]
  have e: "robs ! 91 = vec (- (Erad_x + Erad_dx)) 0 0"
    using x[THEN conjunct1] by simp
  have m: "mag (robs ! 91) = Erad_x + Erad_dx"
    using x[THEN conjunct2] p by simp
  from g l e m show ?thesis by (simp add: Erad_robs_def Erad_N_def)
qed

lemma set_radial_run:
  "set (radial_run theta phi x0 dx N) \<subseteq>
     {smult (x0 + real j * dx) (direction th ph) | th ph j. j < N}"
proof
  fix p assume "p \<in> set (radial_run theta phi x0 dx N)"
  then obtain j where "j < N" "p = smult (x0 + real j * dx) (direction theta phi)"
    by (auto simp: radial_run_def)
  then show "p \<in> {smult (x0 + real j * dx) (direction th ph) | th ph j. j < N}"
    by blast
qed

lemma phi_loop_points:
  assumes "phi_loop theta phi dphi x0 dx N robs = Some out"
  shows "set out \<subseteq> set robs \<union> {smult (x0 + real j * dx) (direction th ph) | th ph j. j < N}"
proof (rule phi_loop.raw_induct[OF _ assms], goal_cases)
  case (1 loop theta phi dphi x0 dx N robs out)
  show ?case
  proof (cases "phi < 2 * pi")
    case True
    with 1(2) have "loop theta (phi + dphi) dphi x0 dx N (radial_loop theta phi x0 dx N robs) = Some out"
      by simp
    from 1(1)[OF this] show ?thesis
      using set_radial_run[of theta phi x0 dx N] by (auto simp: radial_loop_run)
  next
    case False
    with 1(2) show ?thesis by auto
  qed
qed

lemma theta_loop_points:
  assumes "theta_loop theta dtheta dphi x0 dx N robs = Some out"
  shows "set out \<subseteq> set robs \<union> {smult (x0 + real j * dx) (direction th ph) | th ph j. j < N}"
proof (rule theta_loop.raw_induct[OF _ assms], goal_cases)
  case (1 loop theta dtheta dphi x0 dx N robs out)
  show ?case
  proof (cases "theta < pi / 2")
    case True
    with 1(2) obtain mid where
      m: "phi_loop theta 0 dphi x0 dx N robs = Some mid"
      and l: "loop (theta + dtheta) dtheta dphi x0 dx N mid = Some out"
      by (auto simp: bind_eq_Some_conv)
    from 1(1)[OF l] phi_loop_points[OF m] show ?thesis by blast
  next
    case False
    with 1(2) show ?thesis by auto
  qed
qed

lemma observation_grid_on_rays:
  assumes "observation_grid numTheta numPhi x0 dx N = Some (Inr robs)" and "r \<in> set robs"
  shows "\<exists>th ph j. j < N \<and> r = smult (x0 + real j * dx) (direction th ph)"
proof -
  from assms(1) have "theta_loop (- pi / 2) (pi / real_of_int numTheta) (2 * pi / real_of_int numPhi)
                x0 dx N [] = Some robs"
    by (auto simp: observation_grid_def split: if_splits)
  from theta_loop_points[OF this] assms(2)
  have "r \<in> {smult (x0 + real j * dx) (direction th ph) | th ph j. j < N}" by auto
  then show ?thesis by blast
qed

text \<open>
  C9. Every point a returning generation has appended, for any counts, lies at a radius of
  at least the radial start \<open>A * 5 * 10^11\<close>, which is positive; so line 184 never divides
  by zero at a point of the grid: its DivisionByZero branch is not taken.
\<close>

theorem Erad_radius_positive:
  assumes "Erad_robs numTheta numPhi = Some (Inr robs)" and "r \<in> set robs"
  shows "0 < Erad_x \<and> Erad_x \<le> mag r \<and> Erad_Efield r i \<noteq> Inl DivisionByZero"
proof -
  from observation_grid_on_rays[OF assms[unfolded Erad_robs_def]]
  obtain th ph j where r: "r = smult (Erad_x + real j * Erad_dx) (direction th ph)"
    by blast
  have "0 \<le> real j * Erad_dx" using Erad_dx_pos by simp
  then have m: "mag r = Erad_x + real j * Erad_dx" and le: "Erad_x \<le> mag r"
    using Erad_x_pos by (simp_all add: r mag_smult mag_direction)
  have "Erad_c ^ 2 * mag r \<noteq> 0" using le Erad_x_pos Erad_c_pos by simp
  then show ?thesis using le Erad_x_pos by (simp add: Erad_Efield_def Efield_def)
qed

text \<open>The grid of \<open>Erad(2, 2)\<close> returns and holds the point at radius \<open>Erad_x\<close> on the x axis.\<close>

theorem Erad_radius_positive_witness:
  "Erad_robs 2 2 = Some (Inr (grid_points 2 2 Erad_x Erad_dx Erad_N)) \<and>
   smult (Erad_x + real 0 * Erad_dx) (direction 0 0) \<in> set (grid_points 2 2 Erad_x Erad_dx Erad_N) \<and>
   0 < Erad_x \<and> Erad_x \<le> mag (smult (Erad_x + real 0 * Erad_dx) (direction 0 0)) \<and>
   Erad_Efield (smult (Erad_x + real 0 * Erad_dx) (direction 0 0)) 1 \<noteq> Inl DivisionByZero"
proof -
  have g: "Erad_robs 2 2 = Some (Inr (grid_points 2 2 Erad_x Erad_dx Erad_N))"
    by (simp add: Erad_robs_def observation_grid_2_2)
  have "smult (Erad_x + real 0 * Erad_dx) (direction 0 0) \<in> set (radial_run 0 0 Erad_x Erad_dx Erad_N)"
    by (simp add: radial_run_def Erad_N_def image_iff) (rule bexI[where x = 0], simp_all)
  then have s: "smult (Erad_x + real 0 * Erad_dx) (direction 0 0) \<in> set (grid_points 2 2 Erad_x Erad_dx Erad_N)"
    by (simp add: grid_points_2_2)
  from Erad_radius_positive[OF g s, of 1] g s show ?thesis by blast
qed

section \<open>The field of line 184\<close>

lemma smult_smult: "smult a (smult b v) = smult (a * b) v"
  by (cases v) (simp add: mult.assoc)

lemma dot_hat_self: "0 < mag r \<Longrightarrow> dot (hat r) r = mag r"
proof -
  assume p: "0 < mag r"
  have "dot (hat r) r = (1 / mag r) * dot r r" using p by (simp add: hat_def dot_smult_left)
  also have "\<dots> = (1 / mag r) * (mag r * mag r)" by (simp add: mag_sq)
  also have "\<dots> = mag r" using p by simp
  finally show ?thesis .
qed

lemma dot_hat_right: "0 < mag r \<Longrightarrow> dot Avec (hat r) * mag r = dot Avec r"
  by (simp add: hat_def dot_smult_right)

lemma transverse: 
  assumes "0 < mag r"
  shows "dot (vminus (smult (dot Avec (hat r)) (hat r)) Avec) r = 0"
proof -
  have "dot (vminus (smult (dot Avec (hat r)) (hat r)) Avec) r =
        dot Avec (hat r) * dot (hat r) r - dot Avec r"
    by (simp add: dot_vminus_left dot_smult_left)
  also have "\<dots> = 0" using assms by (simp add: dot_hat_self dot_hat_right)
  finally show ?thesis .
qed

lemma Efield_value:
  assumes "c \<noteq> 0" and "0 < mag r"
  shows "Efield oofpez q c Avec omega ti r =
     Inr (smult (13 ^ 6 * (cos (omega * (ti + mag r / c)) * (oofpez * q / (c ^ 2 * mag r))))
            (vminus (smult (dot Avec (hat r)) (hat r)) Avec))"
proof -
  have "c ^ 2 * mag r \<noteq> 0" using assms by simp
  then show ?thesis by (simp only: Efield_def if_False smult_smult)
qed

text \<open>
  C8. At every point with \<open>|r| > 0\<close> and every time, the field of line 184 is transverse
  to the line of sight: its dot product with \<open>r\<close> is zero.
\<close>

theorem Efield_transverse:
  assumes "c \<noteq> 0" and "0 < mag r"
  shows "\<exists>E. Efield oofpez q c Avec omega ti r = Inr E \<and> dot E r = 0"
  using assms by (simp add: Efield_value dot_smult_left transverse)

lemma mag_x_axis: "0 \<le> s \<Longrightarrow> mag (vec s 0 0) = s"
  by (simp add: mag_def)

text \<open>The point at radius \<open>Erad_x\<close> on the x axis, at step 1.\<close>

theorem Efield_transverse_witness:
  "Erad_c \<noteq> 0 \<and> 0 < mag (vec Erad_x 0 0) \<and>
   (\<exists>E. Erad_Efield (vec Erad_x 0 0) 1 = Inr E \<and> dot E (vec Erad_x 0 0) = 0)"
proof -
  have c: "Erad_c \<noteq> 0" using Erad_c_pos by simp
  have m: "0 < mag (vec Erad_x 0 0)" using Erad_x_pos by (simp add: mag_x_axis)
  from Efield_transverse[OF c m] c m show ?thesis
    unfolding Erad_Efield_def by blast
qed

text \<open>
  C10. At a fixed point with \<open>|r| > 0\<close>, the field at every step is a real multiple of the
  one vector \<open>(Avec \<cdot> hat r) hat r - Avec\<close>, where \<open>Avec\<close> is the constant
  \<open>-A \<omega>\<^sup>2\<close> times the unit vector of the y axis.
\<close>

theorem Efield_fixed_direction:
  assumes "0 < mag r"
  shows "\<exists>v. v = vminus (smult (dot Erad_Avec (hat r)) (hat r)) Erad_Avec \<and>
           Erad_Avec = vec 0 (- Erad_A * Erad_omega ^ 2) 0 \<and>
           (\<forall>i. \<exists>s. Erad_Efield r i = Inr (smult s v))"
proof -
  have c: "Erad_c \<noteq> 0" using Erad_c_pos by simp
  have "Erad_Avec = vec 0 (- Erad_A * Erad_omega ^ 2) 0"
    by (simp add: Erad_Avec_def Erad_Ay_def)
  moreover have "\<exists>s. Erad_Efield r i =
      Inr (smult s (vminus (smult (dot Erad_Avec (hat r)) (hat r)) Erad_Avec))" for i
    unfolding Erad_Efield_def by (rule exI, rule Efield_value[OF c assms])
  ultimately show ?thesis by simp
qed

text \<open>The point at radius \<open>Erad_x\<close> on the x axis, at steps 0 and 1.\<close>

theorem Efield_fixed_direction_witness:
  "0 < mag (vec Erad_x 0 0) \<and>
   (\<exists>s0 s1. Erad_Efield (vec Erad_x 0 0) 0 =
                Inr (smult s0 (vminus (smult (dot Erad_Avec (hat (vec Erad_x 0 0))) (hat (vec Erad_x 0 0))) Erad_Avec)) \<and>
            Erad_Efield (vec Erad_x 0 0) 1 =
                Inr (smult s1 (vminus (smult (dot Erad_Avec (hat (vec Erad_x 0 0))) (hat (vec Erad_x 0 0))) Erad_Avec)))"
proof -
  have m: "0 < mag (vec Erad_x 0 0)" using Erad_x_pos by (simp add: mag_x_axis)
  from Efield_fixed_direction[OF m] have
    a: "\<forall>i. \<exists>s. Erad_Efield (vec Erad_x 0 0) i =
      Inr (smult s (vminus (smult (dot Erad_Avec (hat (vec Erad_x 0 0))) (hat (vec Erad_x 0 0))) Erad_Avec))"
    by simp
  from a[rule_format, of 0] a[rule_format, of 1] m show ?thesis by blast
qed

lemma smult_one: "smult 1 v = v"
  by (cases v) simp

lemma hat_smult_unit:
  assumes "mag d = 1" and "0 < a"
  shows "hat (smult a d) = d"
proof -
  have m: "mag (smult a d) = a" using assms by (simp add: mag_smult)
  then have "hat (smult a d) = smult (1 / a) (smult a d)" using assms by (simp add: hat_def)
  also have "\<dots> = d" using assms by (simp add: smult_smult smult_one)
  finally show ?thesis .
qed

text \<open>
  C2. What line 184 computes for two points \<open>a d\<close> and \<open>b d\<close> on one ray, \<open>0 < a < b\<close>:
  the field at the farther point at time \<open>ti\<close> is the field at the nearer point at the
  \<^emph>\<open>later\<close> time \<open>ti + (b - a)/c\<close>, scaled by \<open>a/b\<close>. The specification asks for the earlier
  time \<open>ti - (b - a)/c\<close>; the phase of the code is \<open>t[i] + mag(r)/c\<close>, where the
  notebook's own formula has \<open>t - r/c\<close>.
\<close>

theorem Efield_later_source_time:
  assumes c: "0 < c" and d: "mag d = 1" and a: "0 < a" and ab: "a < b"
  shows "\<exists>E1 E2. Efield oofpez q c Avec omega (ti + (b - a) / c) (smult a d) = Inr E1 \<and>
                 Efield oofpez q c Avec omega ti (smult b d) = Inr E2 \<and>
                 E2 = smult (a / b) E1"
proof -
  have b: "0 < b" using a ab by simp
  have ma: "mag (smult a d) = a" and mb: "mag (smult b d) = b"
    using a b d by (simp_all add: mag_smult)
  have ha: "hat (smult a d) = d" and hb: "hat (smult b d) = d"
    using hat_smult_unit[OF d a] hat_smult_unit[OF d b] by simp_all
  have c0: "c \<noteq> 0" using c by simp
  have phase: "ti + (b - a) / c + a / c = ti + b / c"
    by (simp add: diff_divide_distrib)
  have amp: "a / b * (13 ^ 6 * (cos (omega * (ti + b / c)) * (oofpez * q / (c ^ 2 * a)))) =
             13 ^ 6 * (cos (omega * (ti + b / c)) * (oofpez * q / (c ^ 2 * b)))"
    using a b c0 by (simp add: field_simps)
  have E1: "Efield oofpez q c Avec omega (ti + (b - a) / c) (smult a d) =
      Inr (smult (13 ^ 6 * (cos (omega * (ti + b / c)) * (oofpez * q / (c ^ 2 * a))))
            (vminus (smult (dot Avec d) d) Avec))"
    using Efield_value[OF c0, of "smult a d" oofpez q Avec omega "ti + (b - a) / c"] a
    by (simp only: ma ha phase)
  have E2: "Efield oofpez q c Avec omega ti (smult b d) =
      Inr (smult (13 ^ 6 * (cos (omega * (ti + b / c)) * (oofpez * q / (c ^ 2 * b))))
            (vminus (smult (dot Avec d) d) Avec))"
    using Efield_value[OF c0, of "smult b d" oofpez q Avec omega ti] b
    by (simp only: mb hb)
  have "smult (13 ^ 6 * (cos (omega * (ti + b / c)) * (oofpez * q / (c ^ 2 * b))))
            (vminus (smult (dot Avec d) d) Avec) =
        smult (a / b) (smult (13 ^ 6 * (cos (omega * (ti + b / c)) * (oofpez * q / (c ^ 2 * a))))
            (vminus (smult (dot Avec d) d) Avec))"
    by (simp only: smult_smult amp)
  with E1 E2 show ?thesis by metis
qed

lemma mag_unit_x: "mag (vec 1 0 0) = 1"
  by (simp add: mag_def)

text \<open>Points 60 and 61 of the grid of \<open>Erad(2, 2)\<close>, on the x axis, at step 1.\<close>

theorem Efield_later_source_time_witness:
  "0 < Erad_c \<and> mag (vec 1 0 0) = 1 \<and> 0 < Erad_x \<and> Erad_x < Erad_x + Erad_dx \<and>
   (\<exists>E1 E2.
      Efield Erad_oofpez Erad_q Erad_c Erad_Avec Erad_omega
        (Erad_t 1 + (Erad_x + Erad_dx - Erad_x) / Erad_c) (smult Erad_x (vec 1 0 0)) = Inr E1 \<and>
      Erad_Efield (smult (Erad_x + Erad_dx) (vec 1 0 0)) 1 = Inr E2 \<and>
      E2 = smult (Erad_x / (Erad_x + Erad_dx)) E1)"
proof -
  have lt: "Erad_x < Erad_x + Erad_dx" using Erad_dx_pos by simp
  from Efield_later_source_time[OF Erad_c_pos mag_unit_x Erad_x_pos lt]
  show ?thesis using Erad_c_pos mag_unit_x Erad_x_pos lt
    unfolding Erad_Efield_def by simp
qed

text \<open>
  The equation with the earlier time fails for line 184 at the values
  \<open>oofpez = q = c = omega = 1\<close>, \<open>Avec\<close> the unit vector of the y axis, \<open>ti = 0\<close> and the
  points at radius 1 and 2 on the x axis: \<open>cos 2\<close> is not \<open>cos 0\<close>.
\<close>

lemma Efield_earlier_source_time_fails:
  "Efield 1 1 1 (vec 0 1 0) 1 0 (vec 2 0 0) \<noteq>
     map_sum id (smult (1 / 2)) (Efield 1 1 1 (vec 0 1 0) 1 (0 - (2 - 1) / 1) (vec 1 0 0))"
proof -
  have m1: "mag (vec 1 0 0) = 1" and m2: "mag (vec 2 0 0) = 2"
    by (simp_all add: mag_def)
  have h1: "hat (vec 1 0 0) = vec 1 0 0" and h2: "hat (vec 2 0 0) = vec 1 0 0"
    by (simp_all add: hat_def m1 m2)
  have "cos (2::real) < 0" by (rule cos_two_less_zero)
  then have ne: "cos (2::real) \<noteq> 1" by linarith
  have l: "Efield 1 1 1 (vec 0 1 0) 1 0 (vec 2 0 0) =
      Inr (smult (13 ^ 6) (smult (cos 2) (smult (1 / 2) (vec 0 (- 1) 0))))"
    by (simp add: Efield_def m1 m2 h1 h2)
  have r: "Efield 1 1 1 (vec 0 1 0) 1 (0 - (2 - 1) / 1) (vec 1 0 0) =
      Inr (smult (13 ^ 6) (smult (cos 0) (smult 1 (vec 0 (- 1) 0))))"
    by (simp add: Efield_def m1 m2 h1 h2)
  show ?thesis
    unfolding l r using ne by simp
qed

section \<open>No point at the origin reaches the field evaluation\<close>








section \<open>The field formula of the code and of the specification\<close>

text \<open>
  C1, as the code has it. For \<open>c \<noteq> 0\<close> and \<open>|r| > 0\<close> line 184 returns
  \<open>13^6 * cos (omega * tau) * (oofpez * q / (c\<^sup>2 |r|)) * ((Avec \<cdot> hat r) hat r - Avec)\<close>
  for a source time \<open>tau\<close> at the light-travel distance \<open>|r|/|c|\<close> from \<open>ti\<close>: the
  constant \<open>oofpez\<close> stands where the specification has \<open>1/(4 \<pi> \<epsilon>\<^sub>0)\<close>, and the factor
  \<open>13^6\<close> scales the field for the animation.
\<close>

theorem Efield_formula:
  assumes "c \<noteq> 0" and "0 < mag r"
  shows "\<exists>tau. \<bar>tau - ti\<bar> = mag r / \<bar>c\<bar> \<and>
     Efield oofpez q c Avec omega ti r =
       Inr (smult (13 ^ 6)
             (smult (cos (omega * tau))
               (smult (oofpez * q / (c ^ 2 * mag r))
                 (vminus (smult (dot Avec (hat r)) (hat r)) Avec))))"
proof (intro exI conjI)
  show "\<bar>(ti + mag r / c) - ti\<bar> = mag r / \<bar>c\<bar>"
    using assms by simp
  have "c ^ 2 * mag r \<noteq> 0" using assms by simp
  then show "Efield oofpez q c Avec omega ti r =
       Inr (smult (13 ^ 6)
             (smult (cos (omega * (ti + mag r / c)))
               (smult (oofpez * q / (c ^ 2 * mag r))
                 (vminus (smult (dot Avec (hat r)) (hat r)) Avec))))"
    by (simp only: Efield_def if_False)
qed

text \<open>The point at radius \<open>Erad_x\<close> on the x axis, at step 1.\<close>

theorem Efield_formula_witness:
  "Erad_c \<noteq> 0 \<and> 0 < mag (vec Erad_x 0 0) \<and>
   (\<exists>tau. \<bar>tau - Erad_t 1\<bar> = mag (vec Erad_x 0 0) / \<bar>Erad_c\<bar> \<and>
     Erad_Efield (vec Erad_x 0 0) 1 =
       Inr (smult (13 ^ 6)
             (smult (cos (Erad_omega * tau))
               (smult (Erad_oofpez * Erad_q / (Erad_c ^ 2 * mag (vec Erad_x 0 0)))
                 (vminus (smult (dot Erad_Avec (hat (vec Erad_x 0 0))) (hat (vec Erad_x 0 0)))
                    Erad_Avec)))))"
proof -
  have c: "Erad_c \<noteq> 0" using Erad_c_pos by simp
  have m: "0 < mag (vec Erad_x 0 0)" using Erad_x_pos by (simp add: mag_x_axis)
  from Efield_formula[OF c m] c m show ?thesis
    unfolding Erad_Efield_def by blast
qed


lemma hat_x_axis: "0 < s \<Longrightarrow> hat (vec s 0 0) = vec 1 0 0"
  by (simp add: hat_def mag_x_axis)

lemma Erad_omega_pos: "0 < Erad_omega"
  by (simp add: Erad_omega_def Erad_k_def Erad_q_def Erad_alpha_def Erad_m_def)

lemma Erad_omega_h: "Erad_omega * Erad_h < 2"
proof -
  have "Erad_k / Erad_m < (2 * 10 ^ 18)\<^sup>2"
    by (simp add: Erad_k_def Erad_q_def Erad_alpha_def Erad_m_def power2_eq_square)
  then have "Erad_omega < 2 * 10 ^ 18"
    unfolding Erad_omega_def by (intro real_less_lsqrt) simp_all
  then show ?thesis by (simp add: Erad_h_def)
qed

lemma Erad_Ay_neg: "Erad_Ay < 0"
  using Erad_omega_pos by (simp add: Erad_Ay_def Erad_A_def Erad_a_def)

lemma Efield_x_axis:
  "Efield Erad_oofpez Erad_q Erad_c Erad_Avec Erad_omega ti (vec Erad_x 0 0) =
     Inr (vec 0 (13 ^ 6 * (cos (Erad_omega * (ti + Erad_x / Erad_c)) *
                  (Erad_oofpez * Erad_q / (Erad_c ^ 2 * Erad_x) * (- Erad_Ay)))) 0)"
proof -
  have x: "0 < Erad_x" by (rule Erad_x_pos)
  have m: "mag (vec Erad_x 0 0) = Erad_x" using x by (simp add: mag_x_axis)
  have h: "hat (vec Erad_x 0 0) = vec 1 0 0" using x by (rule hat_x_axis)
  have nz: "Erad_c ^ 2 * Erad_x \<noteq> 0" using x Erad_c_pos by simp
  have v: "vminus (smult (dot Erad_Avec (vec 1 0 0)) (vec 1 0 0)) Erad_Avec = vec 0 (- Erad_Ay) 0"
    by (simp add: Erad_Avec_def)
  show ?thesis
    unfolding Efield_def m h v using nz by (simp only: if_False smult.simps mult_zero_right)
qed

lemma spec_field_x_axis:
  "spec_field Erad_q Erad_e_0 Erad_c Erad_Avec Erad_omega ti (vec Erad_x 0 0) =
     vec 0 (cos (Erad_omega * (ti - Erad_x / Erad_c)) *
              (Erad_q / (4 * pi * Erad_e_0 * Erad_c ^ 2 * Erad_x) * (- Erad_Ay))) 0"
proof -
  have x: "0 < Erad_x" by (rule Erad_x_pos)
  have m: "mag (vec Erad_x 0 0) = Erad_x" using x by (simp add: mag_x_axis)
  have h: "hat (vec Erad_x 0 0) = vec 1 0 0" using x by (rule hat_x_axis)
  have v: "vminus (smult (dot Erad_Avec (vec 1 0 0)) (vec 1 0 0)) Erad_Avec = vec 0 (- Erad_Ay) 0"
    by (simp add: Erad_Avec_def)
  show ?thesis
    unfolding spec_field_def m h v by (simp only: smult.simps mult_zero_right)
qed

lemma scale_exceeds_coulomb: "1 / (4 * pi * Erad_e_0) < 13 ^ 6 * Erad_oofpez"
proof -
  have e: "0 < Erad_e_0" by (simp add: Erad_e_0_def)
  have "1 < 13 ^ 6 * Erad_oofpez * (4 * 2 * Erad_e_0)"
    by (simp add: Erad_oofpez_def Erad_e_0_def)
  also have "\<dots> \<le> 13 ^ 6 * Erad_oofpez * (4 * pi * Erad_e_0)"
    using pi_ge_two e by (simp add: Erad_oofpez_def)
  finally have "1 < 13 ^ 6 * Erad_oofpez * (4 * pi * Erad_e_0)" .
  moreover have "0 < 4 * pi * Erad_e_0" using e by simp
  ultimately show ?thesis by (simp add: divide_less_eq)
qed

text \<open>
  C1 as stated fails at point 60 of the grid of \<open>Erad(2, 2)\<close>, the point at radius
  \<open>Erad_x\<close> on the x axis: the field of the code is not the specification's formula at
  both of the steps 0 and 1.
\<close>

theorem Erad_field_not_spec_formula:
  "\<not> (Erad_Efield (vec Erad_x 0 0) 0 =
         Inr (spec_field Erad_q Erad_e_0 Erad_c Erad_Avec Erad_omega (Erad_t 0) (vec Erad_x 0 0)) \<and>
       Erad_Efield (vec Erad_x 0 0) 1 =
         Inr (spec_field Erad_q Erad_e_0 Erad_c Erad_Avec Erad_omega (Erad_t 1) (vec Erad_x 0 0)))"
proof
  define a where "a = Erad_omega * (Erad_x / Erad_c)"
  define b where "b = Erad_omega * Erad_h"
  define W where "W = Erad_q / (Erad_c ^ 2 * Erad_x) * (- Erad_Ay)"
  define G1 where "G1 = 13 ^ 6 * Erad_oofpez * W"
  define G2 where "G2 = 1 / (4 * pi * Erad_e_0) * W"
  have q: "0 < Erad_q" by (simp add: Erad_q_def)
  have "0 < Erad_c ^ 2 * Erad_x" using Erad_x_pos Erad_c_pos by simp
  then have "0 < Erad_q / (Erad_c ^ 2 * Erad_x)" using q by (rule divide_pos_pos[rotated])
  moreover have "0 < - Erad_Ay" using Erad_Ay_neg by simp
  ultimately have W: "0 < W"
    unfolding W_def by (rule mult_pos_pos)
  have e: "0 < 1 / (4 * pi * Erad_e_0)" by (simp add: Erad_e_0_def)
  have G: "G2 < G1" "0 < G2"
    unfolding G1_def G2_def
    using W scale_exceeds_coulomb e by (simp_all only: mult_strict_right_mono mult_pos_pos)
  have t0: "Erad_t 0 = 0" and t1: "Erad_t 1 = Erad_h" by (simp_all add: Erad_t_def)
  have b: "0 < b" "b < 2"
    using Erad_omega_pos Erad_omega_h by (simp_all add: b_def Erad_h_def)
  assume both: "Erad_Efield (vec Erad_x 0 0) 0 =
         Inr (spec_field Erad_q Erad_e_0 Erad_c Erad_Avec Erad_omega (Erad_t 0) (vec Erad_x 0 0)) \<and>
       Erad_Efield (vec Erad_x 0 0) 1 =
         Inr (spec_field Erad_q Erad_e_0 Erad_c Erad_Avec Erad_omega (Erad_t 1) (vec Erad_x 0 0))"
  from both[THEN conjunct1, unfolded Erad_Efield_def Efield_x_axis spec_field_x_axis t0]
  have e0: "13 ^ 6 * (cos (Erad_omega * (0 + Erad_x / Erad_c)) *
                  (Erad_oofpez * Erad_q / (Erad_c ^ 2 * Erad_x) * (- Erad_Ay))) =
                cos (Erad_omega * (0 - Erad_x / Erad_c)) *
              (Erad_q / (4 * pi * Erad_e_0 * Erad_c ^ 2 * Erad_x) * (- Erad_Ay))"
    by (simp only: sum.inject vec.inject simp_thms)
  from both[THEN conjunct2, unfolded Erad_Efield_def Efield_x_axis spec_field_x_axis t1]
  have e1: "13 ^ 6 * (cos (Erad_omega * (Erad_h + Erad_x / Erad_c)) *
                  (Erad_oofpez * Erad_q / (Erad_c ^ 2 * Erad_x) * (- Erad_Ay))) =
                cos (Erad_omega * (Erad_h - Erad_x / Erad_c)) *
              (Erad_q / (4 * pi * Erad_e_0 * Erad_c ^ 2 * Erad_x) * (- Erad_Ay))"
    by (simp only: sum.inject vec.inject simp_thms)
  have l: "13 ^ 6 * (C * (Erad_oofpez * Erad_q / (Erad_c ^ 2 * Erad_x) * (- Erad_Ay))) = G1 * C" for C
    by (simp add: G1_def W_def mult_ac)
  have r: "C * (Erad_q / (4 * pi * Erad_e_0 * Erad_c ^ 2 * Erad_x) * (- Erad_Ay)) = G2 * C" for C
    by (simp add: G2_def W_def mult_ac)
  have p0: "Erad_omega * (0 + Erad_x / Erad_c) = a" and m0: "Erad_omega * (0 - Erad_x / Erad_c) = - a"
    and p1: "Erad_omega * (Erad_h + Erad_x / Erad_c) = b + a"
    and m1: "Erad_omega * (Erad_h - Erad_x / Erad_c) = b - a"
    by (simp_all add: a_def b_def algebra_simps)
  from e0 have "G1 * cos a = G2 * cos a" unfolding l r p0 m0 by simp
  then have "(G1 - G2) * cos a = 0" by (simp add: algebra_simps)
  then have ca: "cos a = 0" using G by simp
  from e1 have "G1 * cos (b + a) = G2 * cos (b - a)" unfolding l r p1 m1 .
  then have "G1 * (- (sin b * sin a)) = G2 * (sin b * sin a)"
    by (simp add: cos_add cos_diff ca)
  then have "(G1 + G2) * (sin b * sin a) = 0" by (simp add: algebra_simps)
  then have "sin b * sin a = 0" using G by simp
  moreover have "0 < sin b" using b by (rule sin_gt_zero_02)
  ultimately have sa: "sin a = 0" by simp
  have "(sin a)\<^sup>2 + (cos a)\<^sup>2 = 1" by (rule sin_cos_squared_add)
  with sa ca show False by simp
qed

section \<open>The integrator step\<close>

lemma length_vadd: "length b = length a \<Longrightarrow> length (vadd a b) = length a"
  by (simp add: vadd_def)

lemma length_vscale: "length (vscale s a) = length a"
  by (simp add: vscale_def)

lemma eval_deriv_ok:
  assumes "\<forall>s t. length s = n \<longrightarrow> (\<exists>k. derivFn s t = Inr k \<and> length k = n)"
    and "length s = n"
  shows "\<exists>k. derivFn s t = Inr k \<and> length k = n \<and> eval_deriv derivFn n s t = Inr k"
proof -
  from assms obtain k where "derivFn s t = Inr k" "length k = n" by blast
  then show ?thesis by (simp add: eval_deriv_def)
qed

lemma RK4_stages:
  assumes d: "\<forall>s t. length s = length state \<longrightarrow>
                (\<exists>k. derivFn s t = Inr k \<and> length k = length state)"
  shows "\<exists>k1 k2 k3 k4.
     derivFn state t = Inr k1 \<and>
     derivFn (vadd state (vscale (h / 2) k1)) (t + h / 2) = Inr k2 \<and>
     derivFn (vadd state (vscale (h / 2) k2)) (t + h / 2) = Inr k3 \<and>
     derivFn (vadd state (vscale h k3)) (t + h) = Inr k4 \<and>
     length k1 = length state \<and> length k2 = length state \<and>
     length k3 = length state \<and> length k4 = length state \<and>
     RK4 derivFn state t h =
       Inr (vadd state (vscale (h / 6) (vadd (vadd (vadd k1 (vscale 2 k2)) (vscale 2 k3)) k4)))"
proof -
  note ok = eval_deriv_ok[where derivFn = derivFn and n = "length state", OF d]
  from ok[of state t] obtain k1 where
    k1: "derivFn state t = Inr k1" "length k1 = length state"
        "eval_deriv derivFn (length state) state t = Inr k1" by auto
  let ?s2 = "vadd state (vscale (h / 2) k1)"
  have l2: "length ?s2 = length state" using k1(2) by (simp add: length_vadd length_vscale)
  from ok[OF l2, of "t + h / 2"] obtain k2 where
    k2: "derivFn ?s2 (t + h / 2) = Inr k2" "length k2 = length state"
        "eval_deriv derivFn (length state) ?s2 (t + h / 2) = Inr k2" by auto
  let ?s3 = "vadd state (vscale (h / 2) k2)"
  have l3: "length ?s3 = length state" using k2(2) by (simp add: length_vadd length_vscale)
  from ok[OF l3, of "t + h / 2"] obtain k3 where
    k3: "derivFn ?s3 (t + h / 2) = Inr k3" "length k3 = length state"
        "eval_deriv derivFn (length state) ?s3 (t + h / 2) = Inr k3" by auto
  let ?s4 = "vadd state (vscale h k3)"
  have l4: "length ?s4 = length state" using k3(2) by (simp add: length_vadd length_vscale)
  from ok[OF l4, of "t + h"] obtain k4 where
    k4: "derivFn ?s4 (t + h) = Inr k4" "length k4 = length state"
        "eval_deriv derivFn (length state) ?s4 (t + h) = Inr k4" by auto
  have "RK4 derivFn state t h =
       Inr (vadd state (vscale (h / 6) (vadd (vadd (vadd k1 (vscale 2 k2)) (vscale 2 k3)) k4)))"
    by (simp add: RK4_def k1(3) k2(3) k3(3) k4(3))
  with k1 k2 k3 k4 show ?thesis by blast
qed

lemma RK4_combination:
  assumes "length k1 = length state" "length k2 = length state"
    "length k3 = length state" "length k4 = length state"
  shows "length (vadd state (vscale (h / 6) (vadd (vadd (vadd k1 (vscale 2 k2)) (vscale 2 k3)) k4)))
           = length state"
    and "j < length state \<Longrightarrow>
      vadd state (vscale (h / 6) (vadd (vadd (vadd k1 (vscale 2 k2)) (vscale 2 k3)) k4)) ! j =
        state ! j + h / 6 * (k1 ! j + 2 * k2 ! j + 2 * k3 ! j + k4 ! j)"
  using assms by (simp_all add: vadd_def vscale_def)

lemma RK4_returns:
  assumes d: "\<forall>s t. length s = length state \<longrightarrow>
                (\<exists>k. derivFn s t = Inr k \<and> length k = length state)"
  shows "\<exists>s'. RK4 derivFn state t h = Inr s' \<and> length s' = length state"
proof -
  from RK4_stages[OF d, of t h] obtain k1 k2 k3 k4 where
    l: "length k1 = length state" "length k2 = length state"
       "length k3 = length state" "length k4 = length state"
    and r: "RK4 derivFn state t h =
       Inr (vadd state (vscale (h / 6) (vadd (vadd (vadd k1 (vscale 2 k2)) (vscale 2 k3)) k4)))"
    by blast
  from RK4_combination(1)[OF l, where h = h] r show ?thesis by simp
qed

text \<open>
  C5. For a derivative function that returns a vector of the state's length at every
  state of that length and every time, and for every time and step size, the step returns
  \<open>state + (h/6) (k1 + 2 k2 + 2 k3 + k4)\<close>, entry by entry, where \<open>k1\<close> to \<open>k4\<close> are
  the four stage derivatives of the classical Runge-Kutta scheme.
\<close>

theorem RK4_classical:
  assumes d: "\<forall>s t. length s = length state \<longrightarrow>
                (\<exists>k. derivFn s t = Inr k \<and> length k = length state)"
  shows "\<exists>k1 k2 k3 k4 next.
     derivFn state t = Inr k1 \<and>
     derivFn (vadd state (vscale (h / 2) k1)) (t + h / 2) = Inr k2 \<and>
     derivFn (vadd state (vscale (h / 2) k2)) (t + h / 2) = Inr k3 \<and>
     derivFn (vadd state (vscale h k3)) (t + h) = Inr k4 \<and>
     RK4 derivFn state t h = Inr next \<and>
     next = vadd state (vscale (h / 6) (vadd (vadd (vadd k1 (vscale 2 k2)) (vscale 2 k3)) k4)) \<and>
     length next = length state \<and>
     (\<forall>j<length state.
        next ! j = state ! j + h / 6 * (k1 ! j + 2 * k2 ! j + 2 * k3 ! j + k4 ! j))"
proof -
  from RK4_stages[OF d, of t h] obtain k1 k2 k3 k4 where
    k: "derivFn state t = Inr k1"
       "derivFn (vadd state (vscale (h / 2) k1)) (t + h / 2) = Inr k2"
       "derivFn (vadd state (vscale (h / 2) k2)) (t + h / 2) = Inr k3"
       "derivFn (vadd state (vscale h k3)) (t + h) = Inr k4"
    and l: "length k1 = length state" "length k2 = length state"
       "length k3 = length state" "length k4 = length state"
    and r: "RK4 derivFn state t h =
       Inr (vadd state (vscale (h / 6) (vadd (vadd (vadd k1 (vscale 2 k2)) (vscale 2 k3)) k4)))"
    by blast
  from RK4_combination[OF l, where h = h] k r show ?thesis by blast
qed

lemma growth_deriv:
  "\<forall>s (t::real). length s = n \<longrightarrow> (\<exists>k. (Inr s :: error + state) = Inr k \<and> length k = n)"
  by simp

text \<open>The derivative \<open>dS/dt = S\<close> at \<open>[1, 2]\<close> with \<open>h = 1\<close>: one step multiplies by \<open>65/24\<close>.\<close>

theorem RK4_classical_witness:
  "RK4 (\<lambda>s t. Inr s) [1, 2] 0 1 = Inr [65 / 24, 65 / 12]"
proof -
  have d: "\<forall>s (t::real). length s = length [1, 2 :: real] \<longrightarrow>
      (\<exists>k. (Inr s :: error + state) = Inr k \<and> length k = length [1, 2 :: real])"
    by (rule growth_deriv)
  from RK4_classical[where derivFn = "\<lambda>s t. Inr s" and state = "[1, 2]" and t = 0 and h = 1, OF d]
  obtain k1 k2 k3 k4 "next" where
    k: "k1 = [1, 2]" "k2 = vadd [1, 2] (vscale (1 / 2) k1)"
       "k3 = vadd [1, 2] (vscale (1 / 2) k2)" "k4 = vadd [1, 2] (vscale 1 k3)"
    and r: "RK4 (\<lambda>s t. Inr s) [1, 2] 0 1 = Inr next"
           "next = vadd [1, 2] (vscale (1 / 6) (vadd (vadd (vadd k1 (vscale 2 k2)) (vscale 2 k3)) k4))"
    by auto
  have "next = [65 / 24, 65 / 12]"
    unfolding r(2) k by (simp add: vadd_def vscale_def)
  with r(1) show ?thesis by simp
qed

section \<open>The time loop\<close>

lemma time_loop_invariant:
  assumes st: "\<forall>s t. length s = 4 \<longrightarrow> (\<exists>s'. step derivFn s t h = Inr s' \<and> length s' = 4)"
  shows "0 < k \<Longrightarrow> k \<le> Nsteps \<Longrightarrow> length data = 4 \<Longrightarrow>
     length (tarr A) = Nsteps \<Longrightarrow> length (theta1arr A) = Nsteps \<Longrightarrow>
     length (omega1arr A) = Nsteps \<Longrightarrow> length (theta2arr A) = Nsteps \<Longrightarrow>
     length (omega2arr A) = Nsteps \<Longrightarrow>
     t = t0 + real (k - 1) * h \<Longrightarrow> (\<forall>n<k. tarr A ! n = t0 + real n * h) \<Longrightarrow>
     \<exists>A'. time_loop step derivFn h [k..<Nsteps] data t A = Inr A' \<and>
       length (tarr A') = Nsteps \<and> length (theta1arr A') = Nsteps \<and>
       length (omega1arr A') = Nsteps \<and> length (theta2arr A') = Nsteps \<and>
       length (omega2arr A') = Nsteps \<and>
       (\<forall>n<Nsteps. tarr A' ! n = t0 + real n * h) \<and>
       theta1arr A' ! 0 = theta1arr A ! 0 \<and> omega1arr A' ! 0 = omega1arr A ! 0 \<and>
       theta2arr A' ! 0 = theta2arr A ! 0 \<and> omega2arr A' ! 0 = omega2arr A ! 0"
proof (induction "Nsteps - k" arbitrary: k data t A)
  case 0
  then have "k = Nsteps" by simp
  with 0 show ?case by simp
next
  case (Suc d)
  from Suc.hyps(2) have lt: "k < Nsteps" and d: "d = Nsteps - Suc k" by simp_all
  from st obtain data' where s: "step derivFn data t h = Inr data'" and l: "length data' = 4"
    using Suc.prems(3) by metis
  let ?A = "A\<lparr>tarr := (tarr A)[k := t + h],
                theta1arr := (theta1arr A)[k := data' ! 0],
                omega1arr := (omega1arr A)[k := data' ! 1],
                theta2arr := (theta2arr A)[k := data' ! 2],
                omega2arr := (omega2arr A)[k := data' ! 3]\<rparr>"
  have unfold: "time_loop step derivFn h [k..<Nsteps] data t A =
                time_loop step derivFn h [Suc k..<Nsteps] data' (t + h) ?A"
    using lt s l by (simp add: upt_conv_Cons)
  have time: "t + h = t0 + real (Suc k - 1) * h"
    using Suc.prems(1,9) by (simp add: algebra_simps of_nat_diff)
  have tk: "t + h = t0 + real k * h" using time by simp
  have times: "\<forall>n<Suc k. tarr ?A ! n = t0 + real n * h"
  proof (intro allI impI)
    fix n assume "n < Suc k"
    then consider "n < k" | "n = k" by linarith
    then show "tarr ?A ! n = t0 + real n * h"
    proof cases
      case 1
      then show ?thesis using Suc.prems(10) by simp
    next
      case 2
      then show ?thesis using lt Suc.prems(4) tk by simp
    qed
  qed
  have "\<exists>A'. time_loop step derivFn h [Suc k..<Nsteps] data' (t + h) ?A = Inr A' \<and>
       length (tarr A') = Nsteps \<and> length (theta1arr A') = Nsteps \<and>
       length (omega1arr A') = Nsteps \<and> length (theta2arr A') = Nsteps \<and>
       length (omega2arr A') = Nsteps \<and>
       (\<forall>n<Nsteps. tarr A' ! n = t0 + real n * h) \<and>
       theta1arr A' ! 0 = theta1arr ?A ! 0 \<and> omega1arr A' ! 0 = omega1arr ?A ! 0 \<and>
       theta2arr A' ! 0 = theta2arr ?A ! 0 \<and> omega2arr A' ! 0 = omega2arr ?A ! 0"
  proof (rule Suc.hyps(1)[OF d])
    show "0 < Suc k" by simp
    show "Suc k \<le> Nsteps" using lt by simp
    show "length data' = 4" by (rule l)
    show "t + h = t0 + real (Suc k - 1) * h" by (rule time)
    show "\<forall>n<Suc k. tarr ?A ! n = t0 + real n * h" by (rule times)
  qed (simp_all add: Suc.prems)
  then show ?case
    unfolding unfold using Suc.prems(1) by simp
qed

text \<open>
  C4. With an integrator that returns a state of four entries for every state of four
  entries, and a positive step count, the run returns five arrays of exactly \<open>Nsteps\<close>
  entries each; entry 0 holds the start time and the initial state, the time at index
  \<open>n\<close> is \<open>ts + n * h\<close>, and for \<open>Nsteps = 1\<close> the arrays hold the initial entry and
  nothing else.
\<close>

theorem run_trajectory:
  assumes st: "\<forall>s t. length s = 4 \<longrightarrow> (\<exists>s'. step derivFn s t h = Inr s' \<and> length s' = 4)"
    and N: "0 < Nsteps"
  shows "\<exists>A. run step derivFn th_a om_a th_b om_b ts h Nsteps = Inr A \<and>
     length (tarr A) = Nsteps \<and> length (theta1arr A) = Nsteps \<and>
     length (omega1arr A) = Nsteps \<and> length (theta2arr A) = Nsteps \<and>
     length (omega2arr A) = Nsteps \<and>
     tarr A ! 0 = ts \<and> theta1arr A ! 0 = th_a \<and> omega1arr A ! 0 = om_a \<and>
     theta2arr A ! 0 = th_b \<and> omega2arr A ! 0 = om_b \<and>
     (\<forall>n<Nsteps. tarr A ! n = ts + real n * h) \<and>
     (Nsteps = 1 \<longrightarrow>
        A = \<lparr>tarr = [ts], theta1arr = [th_a], omega1arr = [om_a],
             theta2arr = [th_b], omega2arr = [om_b]\<rparr>)"
proof -
  let ?A0 = "\<lparr>tarr = (replicate Nsteps 0)[0 := ts],
              theta1arr = (replicate Nsteps 0)[0 := th_a],
              omega1arr = (replicate Nsteps 0)[0 := om_a],
              theta2arr = (replicate Nsteps 0)[0 := th_b],
              omega2arr = (replicate Nsteps 0)[0 := om_b]\<rparr>"
  have r: "run step derivFn th_a om_a th_b om_b ts h Nsteps =
           time_loop step derivFn h [1..<Nsteps] [th_a, om_a, th_b, om_b] ts ?A0"
    using N by (simp add: run_def)
  have "\<exists>A'. time_loop step derivFn h [1..<Nsteps] [th_a, om_a, th_b, om_b] ts ?A0
          = Inr A' \<and>
       length (tarr A') = Nsteps \<and> length (theta1arr A') = Nsteps \<and>
       length (omega1arr A') = Nsteps \<and> length (theta2arr A') = Nsteps \<and>
       length (omega2arr A') = Nsteps \<and>
       (\<forall>n<Nsteps. tarr A' ! n = ts + real n * h) \<and>
       theta1arr A' ! 0 = theta1arr ?A0 ! 0 \<and> omega1arr A' ! 0 = omega1arr ?A0 ! 0 \<and>
       theta2arr A' ! 0 = theta2arr ?A0 ! 0 \<and> omega2arr A' ! 0 = omega2arr ?A0 ! 0"
    using N by (intro time_loop_invariant[where step = step and derivFn = derivFn and h = h, OF st]) simp_all
  then obtain A where
    A: "time_loop step derivFn h [1..<Nsteps] [th_a, om_a, th_b, om_b] ts ?A0 = Inr A"
    and len: "length (tarr A) = Nsteps" "length (theta1arr A) = Nsteps"
       "length (omega1arr A) = Nsteps" "length (theta2arr A) = Nsteps"
       "length (omega2arr A) = Nsteps"
    and times: "\<forall>n<Nsteps. tarr A ! n = ts + real n * h"
    and first: "theta1arr A ! 0 = theta1arr ?A0 ! 0" "omega1arr A ! 0 = omega1arr ?A0 ! 0"
       "theta2arr A ! 0 = theta2arr ?A0 ! 0" "omega2arr A ! 0 = omega2arr ?A0 ! 0"
    by blast
  have ts: "tarr A ! 0 = ts" using times N by simp
  have init: "theta1arr A ! 0 = th_a" "omega1arr A ! 0 = om_a"
    "theta2arr A ! 0 = th_b" "omega2arr A ! 0 = om_b"
    using first N by simp_all
  have one: "A = \<lparr>tarr = [ts], theta1arr = [th_a], omega1arr = [om_a],
             theta2arr = [th_b], omega2arr = [om_b]\<rparr>" if "Nsteps = 1"
    using A that by simp
  from r A len ts init times one show ?thesis by simp
qed

lemma dpendulum_returns:
  assumes "L1 M \<noteq> 0" and "L2 M \<noteq> 0" and "0 < m1 M" and "0 \<le> m2 M"
  shows "\<forall>s t. length s = 4 \<longrightarrow> (\<exists>k. dpendulum M s t = Inr k \<and> length k = 4)"
proof (intro allI impI)
  fix s :: state and t :: real
  assume l: "length s = 4"
  define C where "C = cos (2 * s ! 0 - 2 * s ! 2)"
  have "C \<le> 1" by (simp add: C_def)
  then have "m2 M * C \<le> m2 M * 1" using assms(4) by (rule mult_left_mono)
  then have "0 < 2 * m1 M + m2 M - m2 M * C" using assms(3) by simp
  then have "L1 M * (2 * m1 M + m2 M - m2 M * C) \<noteq> 0"
    and "L2 M * (2 * m1 M + m2 M - m2 M * C) \<noteq> 0"
    using assms(1,2) by simp_all
  then show "\<exists>k. dpendulum M s t = Inr k \<and> length k = 4"
    using l by (simp add: dpendulum_def Let_def C_def)
qed

lemma RK4_dpendulum_returns:
  assumes "L1 M \<noteq> 0" and "L2 M \<noteq> 0" and "0 < m1 M" and "0 \<le> m2 M"
  shows "\<forall>s t. length s = 4 \<longrightarrow> (\<exists>s'. RK4 (dpendulum M) s t h = Inr s' \<and> length s' = 4)"
proof (intro allI impI)
  fix s :: state and t :: real
  assume l: "length s = 4"
  have "\<forall>s' t. length s' = length s \<longrightarrow> (\<exists>k. dpendulum M s' t = Inr k \<and> length k = length s)"
    unfolding l by (rule dpendulum_returns[OF assms])
  from RK4_returns[OF this, of t h] l
  show "\<exists>s'. RK4 (dpendulum M) s t h = Inr s' \<and> length s' = 4" by simp
qed

text \<open>
  \<^verbatim>\<open>pcalc\<close> itself under the module variables of the notebook's first run:
  100000 entries, the last time \<open>99999 h\<close>.
\<close>

theorem run_trajectory_witness:
  "(0::nat) < 100000 \<and>
   (\<exists>A. pcalc \<lparr>L1 = 4, L2 = 4, m1 = 8, m2 = 2\<rparr> 4 8 4 2 = Inr A \<and>
      length (tarr A) = 100000 \<and> length (theta1arr A) = 100000 \<and>
      tarr A ! 0 = 0 \<and> theta1arr A ! 0 = pi / 2 \<and> omega2arr A ! 0 = 0 \<and>
      tarr A ! 99999 = 0 + real 99999 * (1 / 10 ^ 4))"
proof -
  have N: "(0::nat) < 100000" by simp
  have st: "\<forall>s t. length s = 4 \<longrightarrow>
      (\<exists>s'. RK4 (dpendulum \<lparr>L1 = 4, L2 = 4, m1 = 8, m2 = 2\<rparr>) s t (1 / 10 ^ 4) = Inr s' \<and>
            length s' = 4)"
    by (rule RK4_dpendulum_returns) simp_all
  from run_trajectory[where step = RK4 and derivFn = "dpendulum \<lparr>L1 = 4, L2 = 4, m1 = 8, m2 = 2\<rparr>"
      and h = "1 / 10 ^ 4" and Nsteps = 100000
      and th_a = "pi / 2" and om_a = 0 and th_b = 0 and om_b = 0 and ts = 0, OF st N]
  obtain A where A: "run RK4 (dpendulum \<lparr>L1 = 4, L2 = 4, m1 = 8, m2 = 2\<rparr>) (pi / 2) 0 0 0 0
        (1 / 10 ^ 4) 100000 = Inr A"
      "length (tarr A) = 100000" "length (theta1arr A) = 100000"
      "tarr A ! 0 = 0" "theta1arr A ! 0 = pi / 2" "omega2arr A ! 0 = 0"
    and t: "\<forall>n<100000. tarr A ! n = 0 + real n * (1 / 10 ^ 4)"
    by blast
  from t have "tarr A ! 99999 = 0 + real 99999 * (1 / 10 ^ 4)"
    by (rule allE[where x = 99999]) simp
  with A have "\<exists>A. pcalc \<lparr>L1 = 4, L2 = 4, m1 = 8, m2 = 2\<rparr> 4 8 4 2 = Inr A \<and>
      length (tarr A) = 100000 \<and> length (theta1arr A) = 100000 \<and>
      tarr A ! 0 = 0 \<and> theta1arr A ! 0 = pi / 2 \<and> omega2arr A ! 0 = 0 \<and>
      tarr A ! 99999 = 0 + real 99999 * (1 / 10 ^ 4)"
    unfolding pcalc_def by blast
  with N show ?thesis by blast
qed

section \<open>The derivative and the variables of the module\<close>












end
